theory Spec2Isabelle
  imports Complex_Main
begin

section \<open>Strings, buffers and clocks of the host runtime\<close>

text \<open>
  A JavaScript string is modelled as a \<^typ>\<open>string\<close>: a list of code units, of which the
  HOL type \<^typ>\<open>char\<close> carries those from 0 to 255. \<open>length\<close> counts code units, as
  \<^verbatim>\<open>String.prototype.length\<close> does.
\<close>

definition toLowerCase_char :: "char \<Rightarrow> char" where
  "toLowerCase_char c =
     (case map_of (zip ''ABCDEFGHIJKLMNOPQRSTUVWXYZ'' ''abcdefghijklmnopqrstuvwxyz'') c of
        None \<Rightarrow> c
      | Some l \<Rightarrow> l)"

text \<open>\<^verbatim>\<open>String.prototype.toLowerCase\<close> on the letters A to Z; every other code unit is kept.\<close>

definition toLowerCase :: "string \<Rightarrow> string" where
  "toLowerCase s = map toLowerCase_char s"

fun startsWith :: "string \<Rightarrow> string \<Rightarrow> bool" where
  "startsWith s [] = True"
| "startsWith [] (p # ps) = False"
| "startsWith (c # cs) (p # ps) = (c = p \<and> startsWith cs ps)"

text \<open>\<^verbatim>\<open>String.prototype.includes\<close>: the needle occurs at some position of the string.\<close>

fun includes_str :: "string \<Rightarrow> string \<Rightarrow> bool" where
  "includes_str [] needle = (needle = [])"
| "includes_str (c # cs) needle = (startsWith (c # cs) needle \<or> includes_str cs needle)"

text \<open>
  \<^verbatim>\<open>s.split(sep)\<close> for a separator of one code unit: the pieces between the occurrences of
  the separator, the empty string giving one empty piece.
\<close>

fun split :: "char \<Rightarrow> string \<Rightarrow> string list" where
  "split sep [] = [[]]"
| "split sep (c # cs) =
     (if c = sep then [] # split sep cs
      else (case split sep cs of
              [] \<Rightarrow> [[c]]
            | w # ws \<Rightarrow> (c # w) # ws))"

text \<open>\<^verbatim>\<open>pieces.join(sep)\<close>.\<close>

fun join :: "string \<Rightarrow> string list \<Rightarrow> string" where
  "join sep [] = []"
| "join sep [w] = w"
| "join sep (w # v # ws) = w @ sep @ join sep (v # ws)"

definition digit_char :: "nat \<Rightarrow> char" where
  "digit_char d = ''0123456789'' ! (d mod 10)"

text \<open>The decimal digits of a natural number, most significant first.\<close>

function nat_toString :: "nat \<Rightarrow> string" where
  "nat_toString n =
     (if n < 10 then [digit_char n] else nat_toString (n div 10) @ [digit_char (n mod 10)])"
  by pat_completeness auto
termination
  by (relation "measure (\<lambda>n. n)") auto

declare nat_toString.simps [simp del]

text \<open>\<^verbatim>\<open>Number.prototype.toString\<close> on an integer value.\<close>

definition number_toString :: "int \<Rightarrow> string" where
  "number_toString i = (if i < 0 then CHR ''-'' # nat_toString (nat (- i)) else nat_toString (nat i))"

text \<open>Decimal digits padded with zeros on the left to a width of at least \<open>w\<close>.\<close>

definition pad :: "nat \<Rightarrow> nat \<Rightarrow> string" where
  "pad w n = replicate (w - length (nat_toString n)) CHR ''0'' @ nat_toString n"

subsection \<open>Numbers\<close>

text \<open>
  A JavaScript number is an IEEE 754 double: a finite value, given here by the rational
  number it stands for (zero with a negative sign apart), an infinity, or \<^verbatim>\<open>NaN\<close>. The
  rationals meant are those a double can hold; the whole numbers up to \<open>2\<^sup>5\<^sup>3\<close> in
  magnitude are among them.
\<close>

datatype number = Finite rat | NegZero | PosInfinity | NegInfinity | NaN
















subsection \<open>Buffers\<close>

text \<open>
  \<^verbatim>\<open>Buffer.from(str)\<close> encodes the string in UTF-8: one byte for a code unit below 128, two
  bytes for the code units from 128 to 255.
\<close>

definition utf8_char :: "char \<Rightarrow> nat list" where
  "utf8_char c =
     (let n = (of_char c :: nat) in if n < 128 then [n] else [192 + n div 64, 128 + n mod 64])"

definition Buffer_from :: "string \<Rightarrow> nat list" where
  "Buffer_from s = concat (map utf8_char s)"

definition hex_digit :: "nat \<Rightarrow> char" where
  "hex_digit d = ''0123456789abcdef'' ! (d mod 16)"

definition hex_byte :: "nat \<Rightarrow> string" where
  "hex_byte b = [hex_digit (b div 16), hex_digit b]"

text \<open>\<^verbatim>\<open>buffer.toString("hex")\<close>: two lower-case hexadecimal digits for each byte.\<close>

definition Buffer_toString_hex :: "nat list \<Rightarrow> string" where
  "Buffer_toString_hex bs = concat (map hex_byte bs)"

definition is_hex_char :: "char \<Rightarrow> bool" where
  "is_hex_char c = (c \<in> set ''0123456789abcdef'')"

subsection \<open>Universally unique identifiers\<close>

text \<open>
  The textual form of a UUID: 36 code units, dashes exactly at the positions 8, 13, 18 and
  23, hexadecimal digits everywhere else.
\<close>

definition uuid_dashes :: "bool list" where
  "uuid_dashes =
     replicate 8 False @ [True] @ replicate 4 False @ [True] @ replicate 4 False @ [True] @
     replicate 4 False @ [True] @ replicate 12 False"

definition is_uuid :: "string \<Rightarrow> bool" where
  "is_uuid u =
     (map (\<lambda>c. c = CHR ''-'') u = uuid_dashes \<and> list_all (\<lambda>c. is_hex_char c \<or> c = CHR ''-'') u)"

subsection \<open>Clocks and time stamps\<close>

text \<open>
  A time value is the number of milliseconds since 1970-01-01T00:00:00Z, as
  \<^verbatim>\<open>Date.now()\<close> returns it. The civil date of a day number follows the proleptic Gregorian
  calendar.
\<close>

definition year_of_era :: "int \<Rightarrow> int" where
  "year_of_era doe = (doe - doe div 1460 + doe div 36524 - doe div 146096) div 365"

definition day_of_year :: "int \<Rightarrow> int \<Rightarrow> int" where
  "day_of_year doe yoe = doe - (365 * yoe + yoe div 4 - yoe div 100)"

text \<open>
  Year, month and day from the year and the day of the year, both counted from the first
  of March; \<open>mp\<close> is the month counted from March.
\<close>

definition civil_of_month :: "int \<Rightarrow> int \<Rightarrow> int \<Rightarrow> int \<times> nat \<times> nat" where
  "civil_of_month y doy mp =
     (if mp < 10 then (y, nat (mp + 3), nat (doy - (153 * mp + 2) div 5 + 1))
      else (y + 1, nat (mp - 9), nat (doy - (153 * mp + 2) div 5 + 1)))"

definition civil_of_day :: "int \<Rightarrow> int \<Rightarrow> int \<times> nat \<times> nat" where
  "civil_of_day y doy = civil_of_month y doy ((5 * doy + 2) div 153)"

definition civil_of_era :: "int \<Rightarrow> int \<Rightarrow> int \<Rightarrow> int \<times> nat \<times> nat" where
  "civil_of_era era doe yoe = civil_of_day (yoe + era * 400) (day_of_year doe yoe)"

text \<open>
  Days since 1970-01-01 are shifted to days since 0000-03-01 and cut into eras of 400
  years, that is 146097 days; \<open>doe\<close> is the day of the era, \<open>yoe\<close> the year of the era.
\<close>

definition civil_from_days :: "int \<Rightarrow> int \<times> nat \<times> nat" where
  "civil_from_days days =
     civil_of_era ((days + 719468) div 146097) ((days + 719468) mod 146097)
       (year_of_era ((days + 719468) mod 146097))"

definition year_string :: "int \<Rightarrow> string" where
  "year_string y =
     (if 0 \<le> y \<and> y \<le> 9999 then pad 4 (nat y)
      else (if y < 0 then CHR ''-'' else CHR ''+'') # pad 6 (nat \<bar>y\<bar>))"

text \<open>The time of day \<^verbatim>\<open>HH:MM:SS\<close> of a number of milliseconds since midnight.\<close>

definition clock_string :: "nat \<Rightarrow> string" where
  "clock_string r =
     pad 2 (r div 3600000) @ '':'' @ pad 2 (r div 60000 mod 60) @ '':'' @ pad 2 (r div 1000 mod 60)"

text \<open>\<^verbatim>\<open>Date.prototype.toISOString\<close>: \<^verbatim>\<open>YYYY-MM-DDTHH:mm:ss.sssZ\<close>.\<close>

definition toISOString :: "int \<Rightarrow> string" where
  "toISOString t =
     (case civil_from_days (t div 86400000) of
        (y, m, d) \<Rightarrow> year_string y @ ''-'' @ pad 2 m @ ''-'' @ pad 2 d) @
     ''T'' @ clock_string (nat (t mod 86400000)) @ ''.'' @ pad 3 (nat (t mod 1000)) @ ''Z''"

text \<open>
  SQLite's \<^verbatim>\<open>datetime('now')\<close> and \<^verbatim>\<open>CURRENT_TIMESTAMP\<close>: \<^verbatim>\<open>YYYY-MM-DD HH:MM:SS\<close> in UTC,
  for the years 0000 to 9999 that SQLite supports.
\<close>

definition sqlite_datetime :: "int \<Rightarrow> string" where
  "sqlite_datetime t =
     (case civil_from_days (t div 86400000) of
        (y, m, d) \<Rightarrow> pad 4 (nat y) @ ''-'' @ pad 2 m @ ''-'' @ pad 2 d) @
     '' '' @ clock_string (nat (t mod 86400000))"

text \<open>
  SQLite compares two TEXT values under the BINARY collation: byte by byte, a proper prefix
  being the smaller one.
\<close>

fun text_greater :: "string \<Rightarrow> string \<Rightarrow> bool" where
  "text_greater [] ys = False"
| "text_greater (x # xs) [] = True"
| "text_greater (x # xs) (y # ys) =
     ((of_char x :: nat) > of_char y \<or> (x = y \<and> text_greater xs ys))"


section \<open>The host runtime as a parameter\<close>

text \<open>
  A thrown value: an instance of \<^verbatim>\<open>Error\<close> with its message, or any other value.
\<close>

datatype exn = Error string | NonError

datatype same_site = Strict | Lax | NoneSite

text \<open>The cookie that \<^verbatim>\<open>new Bun.Cookie(name, value, options)\<close> is built from.\<close>

record cookie =
  cookie_name :: string
  cookie_value :: string
  path :: string
  httpOnly :: bool
  secure :: bool
  sameSite :: same_site
  maxAge :: number

text \<open>
  What the runtime answers during one call of a function of the service. The password
  hasher (\<^verbatim>\<open>Bun.password\<close>, bcrypt with cost 4), the UUID generator, the clock and the cookie
  classes belong to the runtime, not to the repository: they are parameters of the model.
  \<open>password_hashSync\<close> is the hash this call would return for each password (the salt is
  drawn by the runtime), \<open>CookieMap_get h n\<close> is \<^verbatim>\<open>new Bun.CookieMap(h).get(n)\<close>.
  \<open>Date_now\<close> is the clock of the call, read by \<^verbatim>\<open>Date.now()\<close> and by SQLite alike; a
  function that reads the clock more than once within one call gets the same instant.
\<close>

record platform =
  password_hashSync :: "string \<Rightarrow> exn + string"
  password_verifySync :: "string \<Rightarrow> string \<Rightarrow> exn + bool"
  randomUUIDv7 :: string
  Date_now :: int
  Cookie_toString :: "cookie \<Rightarrow> string"
  CookieMap_get :: "string \<Rightarrow> string \<Rightarrow> string option"

section \<open>The credential store\<close>

text \<open>
  The two tables of \<^verbatim>\<open>initializeAuthDatabase\<close>. A table that has not been created is
  \<open>None\<close>; \<open>seq\<close> is the counter SQLite keeps for an AUTOINCREMENT key.
\<close>

record user_row =
  u_id :: int
  u_username :: string
  u_email :: string
  u_password_hash :: string
  u_created_at :: string

record session_row =
  s_id :: int
  s_user_id :: int
  s_session_token :: string
  s_created_at :: string
  s_expires_at :: string

record 'r table =
  rows :: "'r list"
  seq :: int

record database =
  users :: "user_row table option"
  sessions :: "session_row table option"

definition fresh_database :: database where
  "fresh_database = \<lparr>users = None, sessions = None\<rparr>"

definition empty_table :: "'r table" where
  "empty_table = \<lparr>rows = [], seq = 0\<rparr>"

text \<open>\<^verbatim>\<open>CREATE TABLE IF NOT EXISTS\<close>, once for each table.\<close>

definition initializeAuthDatabase :: "database \<Rightarrow> database" where
  "initializeAuthDatabase db =
     db\<lparr>users := Some (case users db of None \<Rightarrow> empty_table | Some t \<Rightarrow> t),
        sessions := Some (case sessions db of None \<Rightarrow> empty_table | Some t \<Rightarrow> t)\<rparr>"

definition no_such_table :: "string \<Rightarrow> exn" where
  "no_such_table t = Error (''no such table: '' @ t)"

definition unique_failed :: "string \<Rightarrow> exn" where
  "unique_failed c = Error (''UNIQUE constraint failed: '' @ c)"

text \<open>The key of a new row: one more than every key the table has held.\<close>

definition next_rowid :: "int list \<Rightarrow> int \<Rightarrow> int" where
  "next_rowid ids sq = fold max ids sq + 1"

text \<open>\<^verbatim>\<open>SELECT ... FROM users WHERE email = ?\<close> with \<^verbatim>\<open>.get\<close>: the first row, if any.\<close>

definition select_user_by_email :: "database \<Rightarrow> string \<Rightarrow> exn + user_row option" where
  "select_user_by_email db e =
     (case users db of
        None \<Rightarrow> Inl (no_such_table ''users'')
      | Some t \<Rightarrow> Inr (find (\<lambda>u. u_email u = e) (rows t)))"

text \<open>\<^verbatim>\<open>INSERT INTO users (username, email, password_hash) VALUES (?, ?, ?)\<close>.\<close>

definition insert_user :: "database \<Rightarrow> int \<Rightarrow> string \<Rightarrow> string \<Rightarrow> string \<Rightarrow> exn + database" where
  "insert_user db now un e ph =
     (case users db of
        None \<Rightarrow> Inl (no_such_table ''users'')
      | Some t \<Rightarrow>
          if list_ex (\<lambda>u. u_username u = un) (rows t) then Inl (unique_failed ''users.username'')
          else if list_ex (\<lambda>u. u_email u = e) (rows t) then Inl (unique_failed ''users.email'')
          else
            let i = next_rowid (map u_id (rows t)) (seq t);
                r = \<lparr>u_id = i, u_username = un, u_email = e, u_password_hash = ph,
                     u_created_at = sqlite_datetime now\<rparr>
            in Inr (db\<lparr>users := Some \<lparr>rows = rows t @ [r], seq = i\<rparr>\<rparr>))"

text \<open>
  \<^verbatim>\<open>INSERT INTO sessions (user_id, session_token, expires_at) VALUES (?, ?, ?)\<close>.
\<close>

definition insert_session :: "database \<Rightarrow> int \<Rightarrow> int \<Rightarrow> string \<Rightarrow> string \<Rightarrow> exn + database" where
  "insert_session db now uid tok ex =
     (case sessions db of
        None \<Rightarrow> Inl (no_such_table ''sessions'')
      | Some t \<Rightarrow>
          if list_ex (\<lambda>s. s_session_token s = tok) (rows t)
          then Inl (unique_failed ''sessions.session_token'')
          else
            let i = next_rowid (map s_id (rows t)) (seq t);
                r = \<lparr>s_id = i, s_user_id = uid, s_session_token = tok,
                     s_created_at = sqlite_datetime now, s_expires_at = ex\<rparr>
            in Inr (db\<lparr>sessions := Some \<lparr>rows = rows t @ [r], seq = i\<rparr>\<rparr>))"

text \<open>
  \<^verbatim>\<open>SELECT user_id, expires_at FROM sessions WHERE session_token = ? AND expires_at > datetime('now')\<close>.
\<close>

definition select_session :: "database \<Rightarrow> int \<Rightarrow> string \<Rightarrow> exn + session_row option" where
  "select_session db now tok =
     (case sessions db of
        None \<Rightarrow> Inl (no_such_table ''sessions'')
      | Some t \<Rightarrow>
          Inr (find (\<lambda>s. s_session_token s = tok \<and> text_greater (s_expires_at s) (sqlite_datetime now))
                 (rows t)))"

text \<open>\<^verbatim>\<open>SELECT id, username, email, created_at FROM users WHERE id = ?\<close>.\<close>

record UserInfoRow =
  info_id :: int
  info_username :: string
  info_email :: string
  info_created_at :: string

definition select_user_info :: "database \<Rightarrow> int \<Rightarrow> exn + UserInfoRow option" where
  "select_user_info db i =
     (case users db of
        None \<Rightarrow> Inl (no_such_table ''users'')
      | Some t \<Rightarrow>
          Inr (map_option
                 (\<lambda>u. \<lparr>info_id = u_id u, info_username = u_username u, info_email = u_email u,
                        info_created_at = u_created_at u\<rparr>)
                 (find (\<lambda>u. u_id u = i) (rows t))))"

text \<open>\<^verbatim>\<open>DELETE FROM sessions WHERE session_token = ?\<close>.\<close>

definition delete_session :: "database \<Rightarrow> string \<Rightarrow> exn + database" where
  "delete_session db tok =
     (case sessions db of
        None \<Rightarrow> Inl (no_such_table ''sessions'')
      | Some t \<Rightarrow> Inr (db\<lparr>sessions := Some (t\<lparr>rows := filter (\<lambda>s. s_session_token s \<noteq> tok) (rows t)\<rparr>)\<rparr>))"

section \<open>The authentication service\<close>

text \<open>
  The results of the service. A key that the source leaves out of the object is \<open>None\<close>.
\<close>

record result =
  success :: bool

record message_result = result +
  message :: string
  userId :: "int option"

record auth_result = message_result +
  sessionToken :: "string option"

record session_result =
  valid :: bool
  session_userId :: "int option"

definition hashPassword :: "platform \<Rightarrow> string \<Rightarrow> exn + string" where
  "hashPassword rt password = password_hashSync rt password"

text \<open>An exception of the runtime's verifier is caught and reported as a mismatch.\<close>

definition verifyPassword :: "platform \<Rightarrow> string \<Rightarrow> string \<Rightarrow> bool" where
  "verifyPassword rt password hash =
     (case password_verifySync rt password hash of Inl e \<Rightarrow> False | Inr b \<Rightarrow> b)"

definition generateSessionToken :: "platform \<Rightarrow> string" where
  "generateSessionToken rt =
     Buffer_toString_hex
       (Buffer_from (join [] (split CHR ''-'' (randomUUIDv7 rt)) @ number_toString (Date_now rt)))"

text \<open>\<^verbatim>\<open>error instanceof Error ? error.message : "Unknown error"\<close>.\<close>

definition error_message :: "exn \<Rightarrow> string" where
  "error_message e = (case e of Error m \<Rightarrow> m | NonError \<Rightarrow> ''Unknown error'')"

definition registration_failed :: "exn \<Rightarrow> message_result" where
  "registration_failed e =
     \<lparr>success = False, message = ''Registration failed: '' @ error_message e, userId = None\<rparr>"

definition registerUser ::
  "platform \<Rightarrow> database \<Rightarrow> string \<Rightarrow> string \<Rightarrow> string \<Rightarrow> message_result \<times> database" where
  "registerUser rt db username email password =
     (if username = [] \<or> email = [] \<or> password = [] then
        (\<lparr>success = False, message = ''Username, email, and password are required'',
          userId = None\<rparr>, db)
      else if length password < 6 then
        (\<lparr>success = False, message = ''Password must be at least 6 characters long'',
          userId = None\<rparr>, db)
      else
        (case select_user_by_email db email of
           Inl e \<Rightarrow> (registration_failed e, db)
         | Inr (Some existing) \<Rightarrow>
             (\<lparr>success = False, message = ''Email already registered'', userId = None\<rparr>, db)
         | Inr None \<Rightarrow>
             (case hashPassword rt password of
                Inl e \<Rightarrow> (registration_failed e, db)
              | Inr passwordHash \<Rightarrow>
                  (case insert_user db (Date_now rt) username email passwordHash of
                     Inl e \<Rightarrow> (registration_failed e, db)
                   | Inr db' \<Rightarrow>
                       (case select_user_by_email db' email of
                          Inl e \<Rightarrow> (registration_failed e, db')
                        | Inr user \<Rightarrow>
                            (\<lparr>success = True, message = ''User registered successfully'',
                              userId = map_option u_id user\<rparr>, db'))))))"

definition authentication_failed :: "exn \<Rightarrow> auth_result" where
  "authentication_failed e =
     \<lparr>success = False, message = ''Authentication failed: '' @ error_message e, userId = None,
      sessionToken = None\<rparr>"

definition authenticateUser ::
  "platform \<Rightarrow> database \<Rightarrow> string \<Rightarrow> string \<Rightarrow> auth_result \<times> database" where
  "authenticateUser rt db email password =
     (case select_user_by_email db email of
        Inl e \<Rightarrow> (authentication_failed e, db)
      | Inr None \<Rightarrow>
          (\<lparr>success = False, message = ''Invalid email or password'', userId = None,
            sessionToken = None\<rparr>, db)
      | Inr (Some user) \<Rightarrow>
          if \<not> verifyPassword rt password (u_password_hash user) then
            (\<lparr>success = False, message = ''Invalid email or password'', userId = None,
              sessionToken = None\<rparr>, db)
          else
            let token = generateSessionToken rt;
                expiresAt = Date_now rt + 7 * 24 * 60 * 60 * 1000
            in (case insert_session db (Date_now rt) (u_id user) token (toISOString expiresAt) of
                  Inl e \<Rightarrow> (authentication_failed e, db)
                | Inr db' \<Rightarrow>
                    (\<lparr>success = True, message = ''Authentication successful'',
                      userId = Some (u_id user), sessionToken = Some token\<rparr>, db')))"

definition verifySession :: "platform \<Rightarrow> database \<Rightarrow> string \<Rightarrow> session_result" where
  "verifySession rt db token =
     (case select_session db (Date_now rt) token of
        Inl e \<Rightarrow> \<lparr>valid = False, session_userId = None\<rparr>
      | Inr None \<Rightarrow> \<lparr>valid = False, session_userId = None\<rparr>
      | Inr (Some session) \<Rightarrow> \<lparr>valid = True, session_userId = Some (s_user_id session)\<rparr>)"

definition getUserById :: "database \<Rightarrow> int \<Rightarrow> UserInfoRow option" where
  "getUserById db i = (case select_user_info db i of Inl e \<Rightarrow> None | Inr r \<Rightarrow> r)"

definition logoutUser :: "database \<Rightarrow> string \<Rightarrow> result \<times> database" where
  "logoutUser db token =
     (case delete_session db token of
        Inl e \<Rightarrow> (\<lparr>success = False\<rparr>, db)
      | Inr db' \<Rightarrow> (\<lparr>success = True\<rparr>, db'))"

text \<open>
  The stores that the service itself can produce from a new database file.
\<close>

inductive reachable :: "database \<Rightarrow> bool" where
  fresh: "reachable fresh_database"
| init: "reachable db \<Longrightarrow> reachable (initializeAuthDatabase db)"
| register: "reachable db \<Longrightarrow> reachable (snd (registerUser rt db un e pw))"
| authenticate: "reachable db \<Longrightarrow> reachable (snd (authenticateUser rt db e pw))"
| logout: "reachable db \<Longrightarrow> reachable (snd (logoutUser db tok))"

text \<open>
  Every key of the \<open>users\<close> table is at least 1 and the counter is not negative.
\<close>

definition ids_positive :: "database \<Rightarrow> bool" where
  "ids_positive db =
     (case users db of
        None \<Rightarrow> True
      | Some t \<Rightarrow> 0 \<le> seq t \<and> list_all (\<lambda>u. 1 \<le> u_id u) (rows t))"

text \<open>The same store with every password hash replaced.\<close>

definition replace_password_hashes :: "(user_row \<Rightarrow> string) \<Rightarrow> database \<Rightarrow> database" where
  "replace_password_hashes f db =
     db\<lparr>users := map_option (\<lambda>t. t\<lparr>rows := map (\<lambda>u. u\<lparr>u_password_hash := f u\<rparr>) (rows t)\<rparr>)
                  (users db)\<rparr>"

section \<open>The cookie transport\<close>

text \<open>
  A header list holds (name, value) pairs; names are compared without regard to letter
  case, as the Fetch \<^verbatim>\<open>Headers\<close> class does. \<open>Headers_get\<close> joins the values of a name with
  a comma and a space; \<open>Headers_set\<close> overwrites the first entry of the name and removes the
  others, or appends a new entry.
\<close>

type_synonym header_list = "(string \<times> string) list"

definition same_name :: "string \<Rightarrow> string \<Rightarrow> bool" where
  "same_name a b = (toLowerCase a = toLowerCase b)"

definition Headers_get :: "header_list \<Rightarrow> string \<Rightarrow> string option" where
  "Headers_get hs name =
     (let vs = map snd (filter (\<lambda>kv. same_name (fst kv) name) hs)
      in if vs = [] then None else Some (join '', '' vs))"


record request =
  url :: string
  request_headers :: header_list












definition getSessionFromCookies :: "platform \<Rightarrow> request \<Rightarrow> string option" where
  "getSessionFromCookies rt req =
     (case Headers_get (request_headers req) ''cookie'' of
        None \<Rightarrow> None
      | Some cookieHeader \<Rightarrow>
          if cookieHeader = [] then None
          else (case CookieMap_get rt cookieHeader ''sessionToken'' of
                  None \<Rightarrow> None
                | Some v \<Rightarrow> if v = [] then None else Some v))"



text \<open>
  The handler receives the request, the caller's id and the caller's record. For the
  record, \<open>None\<close> is \<^verbatim>\<open>undefined\<close> and \<open>Some None\<close> is \<^verbatim>\<open>null\<close>. An id of 0 is falsy and is
  treated as no id.
\<close>

definition withOptionalAuthentication ::
  "platform \<Rightarrow> database \<Rightarrow> (request \<Rightarrow> int option \<Rightarrow> UserInfoRow option option \<Rightarrow> 'a) \<Rightarrow>
   request \<Rightarrow> 'a" where
  "withOptionalAuthentication rt db handler req =
     (case getSessionFromCookies rt req of
        None \<Rightarrow> handler req None None
      | Some token \<Rightarrow>
          if token = [] then handler req None None
          else
            let sessionResult = verifySession rt db token
            in (case session_userId sessionResult of
                  None \<Rightarrow> handler req None None
                | Some uid \<Rightarrow>
                    if \<not> valid sessionResult \<or> uid = 0 then handler req None None
                    else handler req (Some uid) (Some (getUserById db uid))))"

section \<open>A sample runtime\<close>

text \<open>
  A concrete runtime on which the model can be run. Its cookie classes follow the usual
  header syntax. Its hasher is a stand-in with the shape of a bcrypt string; it says
  nothing about the real one.
\<close>

definition trim :: "string \<Rightarrow> string" where
  "trim s = rev (dropWhile (\<lambda>c. c = CHR '' '') (rev (dropWhile (\<lambda>c. c = CHR '' '') s)))"

definition cookie_pair :: "string \<Rightarrow> (string \<times> string) option" where
  "cookie_pair s =
     (let n = takeWhile (\<lambda>c. c \<noteq> CHR ''='') s; r = dropWhile (\<lambda>c. c \<noteq> CHR ''='') s
      in if r = [] \<or> trim n = [] then None else Some (trim n, trim (tl r)))"

definition sample_CookieMap_get :: "string \<Rightarrow> string \<Rightarrow> string option" where
  "sample_CookieMap_get h n = map_of (List.map_filter cookie_pair (split CHR '';'' h)) n"

text \<open>A number in decimal digits; of a fraction, the digits of the integer below it.\<close>

definition number_text :: "number \<Rightarrow> string" where
  "number_text x =
     (case x of
        Finite q \<Rightarrow> number_toString \<lfloor>q\<rfloor>
      | NegZero \<Rightarrow> ''0''
      | PosInfinity \<Rightarrow> ''Infinity''
      | NegInfinity \<Rightarrow> ''-Infinity''
      | NaN \<Rightarrow> ''NaN'')"

definition sample_Cookie_toString :: "cookie \<Rightarrow> string" where
  "sample_Cookie_toString c =
     cookie_name c @ ''='' @ cookie_value c @ ''; Path='' @ path c @
     ''; Max-Age='' @ number_text (maxAge c) @
     (if secure c then ''; Secure'' else []) @ (if httpOnly c then ''; HttpOnly'' else []) @
     ''; SameSite='' @ (case sameSite c of Strict \<Rightarrow> ''Strict'' | Lax \<Rightarrow> ''Lax'' | NoneSite \<Rightarrow> ''None'')"

definition sample_platform :: platform where
  "sample_platform =
     \<lparr>password_hashSync = (\<lambda>p. Inr (''$2b$04$'' @ rev p)),
      password_verifySync = (\<lambda>p h. Inr (h = ''$2b$04$'' @ rev p)),
      randomUUIDv7 = ''0192e4a0-1b2c-7d3e-8f40-a1b2c3d4e5f6'',
      Date_now = 1793613600000,
      Cookie_toString = sample_Cookie_toString,
      CookieMap_get = sample_CookieMap_get\<rparr>"

definition sample_token :: string where
  "sample_token =
     ''303139326534613031623263376433653866343061316232633364346535663631373933363133363030303030''"

text \<open>
  The store after \<open>alice\<close> has registered and logged in once on the sample runtime, at
  2026-11-02T10:00:00Z.
\<close>

definition sample_user :: user_row where
  "sample_user =
     \<lparr>u_id = 1, u_username = ''alice'', u_email = ''alice@example.com'',
      u_password_hash = ''$2b$04$1terces'', u_created_at = ''2026-11-02 10:00:00''\<rparr>"

definition sample_session :: session_row where
  "sample_session =
     \<lparr>s_id = 1, s_user_id = 1, s_session_token = sample_token,
      s_created_at = ''2026-11-02 10:00:00'', s_expires_at = ''2026-11-09T10:00:00.000Z''\<rparr>"

definition sample_database :: database where
  "sample_database =
     \<lparr>users = Some \<lparr>rows = [sample_user], seq = 1\<rparr>,
      sessions = Some \<lparr>rows = [sample_session], seq = 1\<rparr>\<rparr>"

text \<open>A request whose session cookie has an empty value.\<close>

definition sample_request :: request where
  "sample_request =
     \<lparr>url = ''http://localhost'',
      request_headers = [(''cookie'', ''sessionToken=; other=value'')]\<rparr>"




text \<open>A second call in the same millisecond, for which the runtime draws another UUID.\<close>

definition sample_platform_2 :: platform where
  "sample_platform_2 = sample_platform\<lparr>randomUUIDv7 := ''0192e4a0-1b2c-7d3e-8f40-a1b2c3d4e5f7''\<rparr>"

section \<open>Running the model\<close>

text \<open>
  Rewrite rules that evaluate the recursion on decimal digits at numerals only, so that they
  terminate.
\<close>

lemma nat_toString_numeral:
  "nat_toString (numeral k) =
     (if (numeral k :: nat) < 10 then [digit_char (numeral k)]
      else nat_toString (numeral k div 10) @ [digit_char (numeral k mod 10)])"
  by (rule nat_toString.simps)

lemma nat_toString_0: "nat_toString 0 = ''0''"
  by (simp add: nat_toString.simps digit_char_def)

lemma nat_toString_1: "nat_toString (Suc 0) = ''1''"
  by (simp add: nat_toString.simps digit_char_def)

lemma replicate_numeral_eval: "replicate (numeral k) x = x # replicate (numeral k - 1) x"
  by (simp add: numeral_eq_Suc)

lemmas eval_strings =
  nat_toString_numeral nat_toString_0 nat_toString_1 replicate_numeral_eval digit_char_def
  pad_def number_toString_def toLowerCase_def toLowerCase_char_def

lemmas eval_time =
  eval_strings clock_string_def civil_from_days_def civil_of_era_def civil_of_day_def
  civil_of_month_def year_of_era_def day_of_year_def year_string_def toISOString_def
  sqlite_datetime_def






lemmas eval_buffer =
  Buffer_from_def Buffer_toString_hex_def utf8_char_def hex_byte_def hex_digit_def

lemma sample_generateSessionToken: "generateSessionToken sample_platform = sample_token"
  by (simp add: generateSessionToken_def sample_platform_def sample_token_def eval_buffer
        eval_strings)

lemma sample_registerUser:
  "registerUser sample_platform (initializeAuthDatabase fresh_database)
     ''alice'' ''alice@example.com'' ''secret1'' =
   (\<lparr>success = True, message = ''User registered successfully'', userId = Some 1\<rparr>,
    sample_database\<lparr>sessions := Some empty_table\<rparr>)"
  by (simp add: registerUser_def select_user_by_email_def insert_user_def hashPassword_def
        initializeAuthDatabase_def fresh_database_def empty_table_def next_rowid_def
        sample_database_def sample_user_def sample_platform_def eval_time)

lemma sample_authenticateUser:
  "authenticateUser sample_platform (sample_database\<lparr>sessions := Some empty_table\<rparr>)
     ''alice@example.com'' ''secret1'' =
   (\<lparr>success = True, message = ''Authentication successful'', userId = Some 1,
     sessionToken = Some sample_token\<rparr>, sample_database)"
  by (simp add: authenticateUser_def select_user_by_email_def insert_session_def
        verifyPassword_def empty_table_def next_rowid_def sample_database_def sample_user_def
        sample_session_def sample_generateSessionToken)
     (simp add: sample_platform_def eval_time)

section \<open>Login failures\<close>

text \<open>
  C1. When the email is unknown, and when the password does not match the stored hash,
  \<open>authenticateUser\<close> returns \<open>success = False\<close> with the same message
  \<open>Invalid email or password\<close>; on every path that ends in a failure, the exception handler
  included, the keys \<open>sessionToken\<close> and \<open>userId\<close> are absent from the result.
\<close>

theorem authenticateUser_failure:
  "(select_user_by_email db email = Inr None \<longrightarrow>
      fst (authenticateUser rt db email password) =
        \<lparr>success = False, message = ''Invalid email or password'', userId = None,
         sessionToken = None\<rparr>) \<and>
   (\<forall>user. select_user_by_email db email = Inr (Some user) \<and>
            \<not> verifyPassword rt password (u_password_hash user) \<longrightarrow>
      fst (authenticateUser rt db email password) =
        \<lparr>success = False, message = ''Invalid email or password'', userId = None,
         sessionToken = None\<rparr>) \<and>
   (\<not> success (fst (authenticateUser rt db email password)) \<longrightarrow>
      sessionToken (fst (authenticateUser rt db email password)) = None \<and>
      userId (fst (authenticateUser rt db email password)) = None)"
  by (auto simp: authenticateUser_def authentication_failed_def Let_def
           split: sum.splits option.splits)

theorem authenticateUser_failure_witness:
  "select_user_by_email sample_database ''bob@example.com'' = Inr None \<and>
   fst (authenticateUser sample_platform sample_database ''bob@example.com'' ''secret1'') =
     \<lparr>success = False, message = ''Invalid email or password'', userId = None,
      sessionToken = None\<rparr> \<and>
   select_user_by_email sample_database ''alice@example.com'' = Inr (Some sample_user) \<and>
   \<not> verifyPassword sample_platform ''wrong'' (u_password_hash sample_user) \<and>
   fst (authenticateUser sample_platform sample_database ''alice@example.com'' ''wrong'') =
     \<lparr>success = False, message = ''Invalid email or password'', userId = None,
      sessionToken = None\<rparr> \<and>
   \<not> success (fst (authenticateUser sample_platform fresh_database ''alice@example.com'' ''secret1'')) \<and>
   sessionToken (fst (authenticateUser sample_platform fresh_database ''alice@example.com'' ''secret1'')) = None \<and>
   userId (fst (authenticateUser sample_platform fresh_database ''alice@example.com'' ''secret1'')) = None"
proof -
  have unknown: "select_user_by_email sample_database ''bob@example.com'' = Inr None"
    by (simp add: select_user_by_email_def sample_database_def sample_user_def)
  have known: "select_user_by_email sample_database ''alice@example.com'' = Inr (Some sample_user)"
    by (simp add: select_user_by_email_def sample_database_def sample_user_def)
  have mismatch: "\<not> verifyPassword sample_platform ''wrong'' (u_password_hash sample_user)"
    by (simp add: verifyPassword_def sample_platform_def sample_user_def)
  have raised: "\<not> success (fst (authenticateUser sample_platform fresh_database ''alice@example.com'' ''secret1''))"
    by (simp add: authenticateUser_def select_user_by_email_def fresh_database_def
          authentication_failed_def)
  show ?thesis
    using unknown known mismatch raised
      authenticateUser_failure [of sample_database "''bob@example.com''" sample_platform "''secret1''"]
      authenticateUser_failure [of sample_database "''alice@example.com''" sample_platform "''wrong''"]
      authenticateUser_failure [of fresh_database "''alice@example.com''" sample_platform "''secret1''"]
    by simp
qed

section \<open>Registration\<close>

lemma find_snoc:
  "find P (xs @ [r]) =
     (case find P xs of None \<Rightarrow> (if P r then Some r else None) | Some x \<Rightarrow> Some x)"
  by (induction xs) auto

lemma insert_user_select:
  assumes "select_user_by_email db e = Inr None"
    and "insert_user db now un e ph = Inr db'"
  shows "\<exists>u. select_user_by_email db' e = Inr (Some u) \<and> u_username u = un \<and>
             u_email u = e \<and> u_password_hash u = ph"
  using assms
  by (auto simp: select_user_by_email_def insert_user_def Let_def find_snoc
           split: option.splits if_splits)

text \<open>
  C3. \<open>registerUser\<close> checks in this order and stops at the first check that fails:
  an empty username, email or password gives \<open>success = False\<close>; otherwise a password
  shorter than 6 gives \<open>success = False\<close> with a message that contains the word
  \<open>password\<close> (it is \<open>Password must be at least 6 characters long\<close>; the word is found
  without regard to letter case, as the callers look for it), and a password of length 6 or
  more never gets that message; otherwise an email that is already registered gives
  \<open>Email already registered\<close>. None of the three failures changes the store. Only when
  all three checks pass is the password hashed and the user inserted, and a successful
  result carries the id of the inserted row.
\<close>

theorem registerUser_pipeline:
  "(username = [] \<or> email = [] \<or> password = [] \<longrightarrow>
      registerUser rt db username email password =
        (\<lparr>success = False, message = ''Username, email, and password are required'',
          userId = None\<rparr>, db)) \<and>
   (username \<noteq> [] \<and> email \<noteq> [] \<and> password \<noteq> [] \<and> length password < 6 \<longrightarrow>
      registerUser rt db username email password =
        (\<lparr>success = False, message = ''Password must be at least 6 characters long'',
          userId = None\<rparr>, db) \<and>
      includes_str (toLowerCase (message (fst (registerUser rt db username email password))))
        ''password'') \<and>
   (6 \<le> length password \<longrightarrow>
      message (fst (registerUser rt db username email password)) \<noteq>
        ''Password must be at least 6 characters long'') \<and>
   (username \<noteq> [] \<and> email \<noteq> [] \<and> 6 \<le> length password \<and>
    (\<exists>existing. select_user_by_email db email = Inr (Some existing)) \<longrightarrow>
      registerUser rt db username email password =
        (\<lparr>success = False, message = ''Email already registered'', userId = None\<rparr>, db)) \<and>
   (success (fst (registerUser rt db username email password)) \<longrightarrow>
      username \<noteq> [] \<and> email \<noteq> [] \<and> password \<noteq> [] \<and> 6 \<le> length password \<and>
      select_user_by_email db email = Inr None \<and>
      (\<exists>passwordHash user.
         hashPassword rt password = Inr passwordHash \<and>
         insert_user db (Date_now rt) username email passwordHash =
           Inr (snd (registerUser rt db username email password)) \<and>
         select_user_by_email (snd (registerUser rt db username email password)) email =
           Inr (Some user) \<and>
         u_username user = username \<and> u_password_hash user = passwordHash \<and>
         userId (fst (registerUser rt db username email password)) = Some (u_id user)))"
proof (intro conjI impI)
  assume "username = [] \<or> email = [] \<or> password = []"
  then show "registerUser rt db username email password =
        (\<lparr>success = False, message = ''Username, email, and password are required'',
          userId = None\<rparr>, db)"
    by (auto simp: registerUser_def)
next
  assume "username \<noteq> [] \<and> email \<noteq> [] \<and> password \<noteq> [] \<and> length password < 6"
  then show short: "registerUser rt db username email password =
        (\<lparr>success = False, message = ''Password must be at least 6 characters long'',
          userId = None\<rparr>, db)"
    by (simp add: registerUser_def)
  show "includes_str (toLowerCase (message (fst (registerUser rt db username email password))))
        ''password''"
    unfolding short by (simp add: toLowerCase_def toLowerCase_char_def)
next
  assume "6 \<le> length password"
  then show "message (fst (registerUser rt db username email password)) \<noteq>
        ''Password must be at least 6 characters long''"
    by (auto simp: registerUser_def registration_failed_def split: sum.splits option.splits)
next
  assume "username \<noteq> [] \<and> email \<noteq> [] \<and> 6 \<le> length password \<and>
    (\<exists>existing. select_user_by_email db email = Inr (Some existing))"
  then show "registerUser rt db username email password =
        (\<lparr>success = False, message = ''Email already registered'', userId = None\<rparr>, db)"
    by (auto simp: registerUser_def)
next
  assume ok: "success (fst (registerUser rt db username email password))"
  then show "username \<noteq> []" "email \<noteq> []" "password \<noteq> []" "6 \<le> length password"
    by (auto simp: registerUser_def split: if_splits)
  from ok show new: "select_user_by_email db email = Inr None"
    by (auto simp: registerUser_def registration_failed_def
             split: if_splits sum.splits option.splits)
  from ok new obtain ph db' where hashed: "hashPassword rt password = Inr ph"
    and inserted: "insert_user db (Date_now rt) username email ph = Inr db'"
    by (auto simp: registerUser_def registration_failed_def
             split: if_splits sum.splits option.splits)
  from insert_user_select [OF new inserted] obtain u where
    row: "select_user_by_email db' email = Inr (Some u)" "u_username u = username"
      "u_password_hash u = ph"
    by blast
  from ok new hashed inserted row have run: "registerUser rt db username email password =
      (\<lparr>success = True, message = ''User registered successfully'', userId = Some (u_id u)\<rparr>,
       db')"
    by (auto simp: registerUser_def split: if_splits)
  show "\<exists>passwordHash user.
         hashPassword rt password = Inr passwordHash \<and>
         insert_user db (Date_now rt) username email passwordHash =
           Inr (snd (registerUser rt db username email password)) \<and>
         select_user_by_email (snd (registerUser rt db username email password)) email =
           Inr (Some user) \<and>
         u_username user = username \<and> u_password_hash user = passwordHash \<and>
         userId (fst (registerUser rt db username email password)) = Some (u_id user)"
    unfolding run using hashed inserted row by auto
qed

theorem registerUser_pipeline_witness:
  "registerUser sample_platform sample_database [] ''bob@example.com'' ''secret1'' =
     (\<lparr>success = False, message = ''Username, email, and password are required'',
       userId = None\<rparr>, sample_database) \<and>
   length ''12345'' < 6 \<and>
   registerUser sample_platform sample_database ''bob'' ''bob@example.com'' ''12345'' =
     (\<lparr>success = False, message = ''Password must be at least 6 characters long'',
       userId = None\<rparr>, sample_database) \<and>
   6 \<le> length ''123456'' \<and>
   message (fst (registerUser sample_platform sample_database ''bob'' ''bob@example.com''
     ''123456'')) \<noteq> ''Password must be at least 6 characters long'' \<and>
   select_user_by_email sample_database ''alice@example.com'' = Inr (Some sample_user) \<and>
   registerUser sample_platform sample_database ''alice2'' ''alice@example.com'' ''secret1'' =
     (\<lparr>success = False, message = ''Email already registered'', userId = None\<rparr>,
      sample_database) \<and>
   success (fst (registerUser sample_platform (initializeAuthDatabase fresh_database)
     ''alice'' ''alice@example.com'' ''secret1'')) \<and>
   select_user_by_email (initializeAuthDatabase fresh_database) ''alice@example.com'' = Inr None"
proof -
  have taken: "select_user_by_email sample_database ''alice@example.com'' = Inr (Some sample_user)"
    by (simp add: select_user_by_email_def sample_database_def sample_user_def)
  have ok: "success (fst (registerUser sample_platform (initializeAuthDatabase fresh_database)
     ''alice'' ''alice@example.com'' ''secret1''))"
    by (simp add: sample_registerUser)
  show ?thesis
    using taken ok
      registerUser_pipeline [of "[]" "''bob@example.com''" "''secret1''" sample_platform
        sample_database]
      registerUser_pipeline [of "''bob''" "''bob@example.com''" "''12345''" sample_platform
        sample_database]
      registerUser_pipeline [of "''bob''" "''bob@example.com''" "''123456''" sample_platform
        sample_database]
      registerUser_pipeline [of "''alice2''" "''alice@example.com''" "''secret1''"
        sample_platform sample_database]
      registerUser_pipeline [of "''alice''" "''alice@example.com''" "''secret1''"
        sample_platform "initializeAuthDatabase fresh_database"]
    by simp
qed

section \<open>Logout\<close>

text \<open>
  C9, at the input where it fails: on a database file whose tables have not been created,
  the \<^verbatim>\<open>DELETE\<close> raises and \<open>logoutUser\<close> returns \<open>success = False\<close>.
\<close>

theorem logoutUser_counterexample:
  "fst (logoutUser fresh_database ''abc'') = \<lparr>success = False\<rparr>"
  by (simp add: logoutUser_def delete_session_def fresh_database_def)

text \<open>
  C9, amended. On a store whose \<open>sessions\<close> table exists, \<open>logoutUser\<close> returns
  \<open>success = True\<close> for every token, known or not, empty or not; its only effect is to
  remove the session rows with that token, the \<open>users\<close> table is left as it was, and a
  second call with the same token returns the same result and changes nothing. When the
  table is missing, the exception handler returns \<open>success = False\<close> and the store is
  unchanged.
\<close>

theorem logoutUser_effect:
  "(\<forall>t. sessions db = Some t \<longrightarrow>
      logoutUser db token =
        (\<lparr>success = True\<rparr>,
         db\<lparr>sessions := Some (t\<lparr>rows := filter (\<lambda>s. s_session_token s \<noteq> token) (rows t)\<rparr>)\<rparr>) \<and>
      logoutUser (snd (logoutUser db token)) token =
        (\<lparr>success = True\<rparr>, snd (logoutUser db token)) \<and>
      users (snd (logoutUser db token)) = users db) \<and>
   (sessions db = None \<longrightarrow> logoutUser db token = (\<lparr>success = False\<rparr>, db))"
  by (auto simp: logoutUser_def delete_session_def)

theorem logoutUser_effect_witness:
  "sessions sample_database = Some \<lparr>rows = [sample_session], seq = 1\<rparr> \<and>
   logoutUser sample_database sample_token =
     (\<lparr>success = True\<rparr>,
      sample_database\<lparr>sessions := Some (\<lparr>rows = [sample_session], seq = 1\<rparr>
        \<lparr>rows := filter (\<lambda>s. s_session_token s \<noteq> sample_token)
                  (rows \<lparr>rows = [sample_session], seq = 1\<rparr>)\<rparr>)\<rparr>) \<and>
   logoutUser (snd (logoutUser sample_database sample_token)) sample_token =
     (\<lparr>success = True\<rparr>, snd (logoutUser sample_database sample_token)) \<and>
   users (snd (logoutUser sample_database sample_token)) = users sample_database \<and>
   sessions fresh_database = None \<and>
   logoutUser fresh_database [] = (\<lparr>success = False\<rparr>, fresh_database)"
proof -
  have stored: "sessions sample_database = Some \<lparr>rows = [sample_session], seq = 1\<rparr>"
    by (simp add: sample_database_def)
  have missing: "sessions fresh_database = None"
    by (simp add: fresh_database_def)
  show ?thesis
    using stored missing
      logoutUser_effect [of sample_database sample_token]
      logoutUser_effect [of fresh_database "[]"]
    by blast
qed

section \<open>Cookies with an empty value\<close>

text \<open>
  C10. When the \<open>Cookie\<close> header of a request carries the \<open>sessionToken\<close> cookie with an
  empty value, \<open>getSessionFromCookies\<close> returns none; it never returns the empty string.
  \<open>withOptionalAuthentication\<close> then calls the handler as for an anonymous request,
  whatever the store holds: no session is looked up.
\<close>

theorem getSessionFromCookies_empty_value:
  "(\<forall>cookieHeader.
      Headers_get (request_headers req) ''cookie'' = Some cookieHeader \<and>
      CookieMap_get rt cookieHeader ''sessionToken'' = Some [] \<longrightarrow>
        getSessionFromCookies rt req = None \<and>
        withOptionalAuthentication rt db handler req = handler req None None) \<and>
   getSessionFromCookies rt req \<noteq> Some []"
  by (auto simp: getSessionFromCookies_def withOptionalAuthentication_def
           split: option.splits if_splits)

theorem getSessionFromCookies_empty_value_witness:
  "Headers_get (request_headers sample_request) ''cookie'' = Some ''sessionToken=; other=value'' \<and>
   CookieMap_get sample_platform ''sessionToken=; other=value'' ''sessionToken'' = Some [] \<and>
   getSessionFromCookies sample_platform sample_request = None \<and>
   withOptionalAuthentication sample_platform sample_database (\<lambda>r u i. (u, i)) sample_request =
     (None, None)"
proof -
  have header: "Headers_get (request_headers sample_request) ''cookie'' =
      Some ''sessionToken=; other=value''"
    by (simp add: Headers_get_def sample_request_def same_name_def toLowerCase_def
          toLowerCase_char_def)
  have empty: "CookieMap_get sample_platform ''sessionToken=; other=value'' ''sessionToken'' =
      Some []"
    by (simp add: sample_platform_def sample_CookieMap_get_def cookie_pair_def trim_def
          List.map_filter_def)
  show ?thesis
    using header empty
      getSessionFromCookies_empty_value [of sample_request sample_platform sample_database
        "\<lambda>r u i. (u, i)"]
    by simp
qed

section \<open>Session verification\<close>

lemma verifySession_invalid:
  "\<not> valid (verifySession rt db token) \<Longrightarrow> session_userId (verifySession rt db token) = None"
  by (simp add: verifySession_def split: sum.splits option.splits)

lemma verifySession_unknown:
  assumes "sessions db = Some t" and "token \<notin> s_session_token ` set (rows t)"
  shows "verifySession rt db token = \<lparr>valid = False, session_userId = None\<rparr>"
proof -
  from assms(2) have "find (\<lambda>s. s_session_token s = token \<and>
      text_greater (s_expires_at s) (sqlite_datetime (Date_now rt))) (rows t) = None"
    by (auto simp: find_None_iff)
  with assms(1) show ?thesis
    by (simp add: verifySession_def select_session_def)
qed

lemma verifySession_valid_iff:
  "valid (verifySession rt db token) \<longleftrightarrow>
   (\<exists>t. sessions db = Some t \<and>
      (\<exists>s \<in> set (rows t). s_session_token s = token \<and>
         text_greater (s_expires_at s) (sqlite_datetime (Date_now rt))))"
proof (cases "sessions db")
  case None
  then show ?thesis
    by (simp add: verifySession_def select_session_def)
next
  case table: (Some t)
  let ?live = "\<lambda>s. s_session_token s = token \<and>
      text_greater (s_expires_at s) (sqlite_datetime (Date_now rt))"
  show ?thesis
  proof (cases "find ?live (rows t)")
    case None
    with table have "\<not> valid (verifySession rt db token)"
      by (simp add: verifySession_def select_session_def)
    moreover from None have "\<not> (\<exists>s \<in> set (rows t). ?live s)"
      by (auto simp: find_None_iff)
    ultimately show ?thesis
      using table by simp
  next
    case (Some s)
    with table have "valid (verifySession rt db token)"
      by (simp add: verifySession_def select_session_def)
    moreover from Some have "s \<in> set (rows t) \<and> ?live s"
      by (auto simp: find_Some_iff)
    ultimately show ?thesis
      using table by auto
  qed
qed

text \<open>
  C2, at the input where the code departs from it. \<open>alice\<close> logs in on 2026-11-02 at
  10:00:00 UTC; the session row is written with the expiry \<open>2026-11-09T10:00:00.000Z\<close>,
  the ISO form of the time value 1794218400000. Two hours after that instant, at the time
  value 1794225600000, \<open>verifySession\<close> still answers \<open>valid = True\<close>: the query
  compares the stored ISO text with \<open>2026-11-09 12:00:00\<close> as text, the two agree on the
  date, and at the eleventh character \<open>T\<close> is greater than the space.
\<close>

theorem verifySession_accepts_expired_session:
  "authenticateUser sample_platform (sample_database\<lparr>sessions := Some empty_table\<rparr>)
     ''alice@example.com'' ''secret1'' =
     (\<lparr>success = True, message = ''Authentication successful'', userId = Some 1,
       sessionToken = Some sample_token\<rparr>, sample_database) \<and>
   sessions sample_database = Some \<lparr>rows = [sample_session], seq = 1\<rparr> \<and>
   s_session_token sample_session = sample_token \<and>
   s_expires_at sample_session = toISOString 1794218400000 \<and>
   (1794218400000 :: int) < 1794225600000 \<and>
   sqlite_datetime 1794225600000 = ''2026-11-09 12:00:00'' \<and>
   verifySession (sample_platform\<lparr>Date_now := 1794225600000\<rparr>) sample_database sample_token =
     \<lparr>valid = True, session_userId = Some 1\<rparr>"
proof -
  have expiry: "toISOString 1794218400000 = ''2026-11-09T10:00:00.000Z''"
    by (simp add: eval_time)
  have later: "sqlite_datetime 1794225600000 = ''2026-11-09 12:00:00''"
    by (simp add: eval_time)
  show ?thesis
  proof (intro conjI)
    show "authenticateUser sample_platform (sample_database\<lparr>sessions := Some empty_table\<rparr>)
       ''alice@example.com'' ''secret1'' =
       (\<lparr>success = True, message = ''Authentication successful'', userId = Some 1,
         sessionToken = Some sample_token\<rparr>, sample_database)"
      by (rule sample_authenticateUser)
    show "sessions sample_database = Some \<lparr>rows = [sample_session], seq = 1\<rparr>"
      by (simp add: sample_database_def)
    show "s_session_token sample_session = sample_token"
      by (simp add: sample_session_def)
    show "s_expires_at sample_session = toISOString 1794218400000"
      by (simp add: sample_session_def expiry)
    show "(1794218400000 :: int) < 1794225600000"
      by simp
    show "sqlite_datetime 1794225600000 = ''2026-11-09 12:00:00''"
      by (rule later)
    show "verifySession (sample_platform\<lparr>Date_now := 1794225600000\<rparr>) sample_database
        sample_token = \<lparr>valid = True, session_userId = Some 1\<rparr>"
      by (simp add: verifySession_def select_session_def sample_database_def
            sample_session_def later)
  qed
qed

section \<open>Reading a user\<close>

lemma fold_max_ge: "(sq :: int) \<le> fold max ids sq"
proof (induction ids arbitrary: sq)
  case Nil
  show ?case by simp
next
  case (Cons i ids)
  have "sq \<le> max i sq" by simp
  also have "max i sq \<le> fold max ids (max i sq)" by (rule Cons.IH)
  finally show ?case by simp
qed

lemma ids_positive_initializeAuthDatabase:
  "ids_positive db \<Longrightarrow> ids_positive (initializeAuthDatabase db)"
  by (auto simp: ids_positive_def initializeAuthDatabase_def empty_table_def split: option.splits)

lemma ids_positive_insert_user:
  assumes "ids_positive db" and "insert_user db now un e ph = Inr db'"
  shows "ids_positive db'"
proof -
  from assms(2) obtain t where t: "users db = Some t"
    by (auto simp: insert_user_def split: option.splits)
  have "0 \<le> seq t" and old: "\<forall>u\<in>set (rows t). 1 \<le> u_id u"
    using assms(1) t by (auto simp: ids_positive_def list_all_iff)
  then have "1 \<le> next_rowid (map u_id (rows t)) (seq t)"
    using fold_max_ge [of "seq t" "map u_id (rows t)"] by (simp add: next_rowid_def)
  with old assms(2) t show ?thesis
    by (auto simp: insert_user_def ids_positive_def list_all_iff Let_def split: if_splits)
qed

lemma ids_positive_registerUser:
  "ids_positive db \<Longrightarrow> ids_positive (snd (registerUser rt db un e pw))"
  by (auto simp: registerUser_def split: sum.splits option.splits dest: ids_positive_insert_user)

lemma ids_positive_authenticateUser:
  "ids_positive db \<Longrightarrow> ids_positive (snd (authenticateUser rt db e pw))"
  by (auto simp: authenticateUser_def insert_session_def ids_positive_def Let_def
           split: sum.splits option.splits if_splits)

lemma ids_positive_logoutUser:
  "ids_positive db \<Longrightarrow> ids_positive (snd (logoutUser db tok))"
  by (auto simp: logoutUser_def delete_session_def ids_positive_def split: option.splits)

lemma reachable_ids_positive: "reachable db \<Longrightarrow> ids_positive db"
proof (induction rule: reachable.induct)
  case fresh
  show ?case by (simp add: ids_positive_def fresh_database_def)
next
  case (init db)
  then show ?case by (simp add: ids_positive_initializeAuthDatabase)
next
  case (register db rt un e pw)
  then show ?case by (simp add: ids_positive_registerUser)
next
  case (authenticate db rt e pw)
  then show ?case by (simp add: ids_positive_authenticateUser)
next
  case (logout db tok)
  then show ?case by (simp add: ids_positive_logoutUser)
qed

lemma find_map_rows: "find P (map g xs) = map_option g (find (\<lambda>x. P (g x)) xs)"
  by (induction xs) auto

lemma reachable_sample_database: "reachable sample_database"
proof -
  have "reachable (initializeAuthDatabase fresh_database)"
    by (intro reachable.init reachable.fresh)
  then have "reachable (snd (registerUser sample_platform (initializeAuthDatabase fresh_database)
      ''alice'' ''alice@example.com'' ''secret1''))"
    by (rule reachable.register)
  then have "reachable (sample_database\<lparr>sessions := Some empty_table\<rparr>)"
    by (simp add: sample_registerUser)
  then have "reachable (snd (authenticateUser sample_platform
      (sample_database\<lparr>sessions := Some empty_table\<rparr>) ''alice@example.com'' ''secret1''))"
    by (rule reachable.authenticate)
  then show ?thesis
    by (simp add: sample_authenticateUser)
qed

text \<open>
  C7. For an id that is in the \<open>users\<close> table, \<open>getUserById\<close> returns the id, the
  username, the email and the creation time of that row and nothing else: the result does
  not depend on the password hashes in the store. For an id that no row has it returns
  none; in a store that the service has produced every id is at least 1, so zero and the
  negative numbers return none; when the table is missing, the exception is caught and the
  result is none as well.
\<close>

theorem getUserById_shape:
  "(\<forall>t u. users db = Some t \<and> find (\<lambda>u. u_id u = i) (rows t) = Some u \<longrightarrow>
      getUserById db i =
        Some \<lparr>info_id = i, info_username = u_username u, info_email = u_email u,
              info_created_at = u_created_at u\<rparr>) \<and>
   (\<forall>t. users db = Some t \<and> i \<notin> u_id ` set (rows t) \<longrightarrow> getUserById db i = None) \<and>
   (users db = None \<longrightarrow> getUserById db i = None) \<and>
   (reachable db \<and> i \<le> 0 \<longrightarrow> getUserById db i = None) \<and>
   getUserById (replace_password_hashes f db) i = getUserById db i"
proof (intro conjI allI impI)
  fix t u
  assume "users db = Some t \<and> find (\<lambda>u. u_id u = i) (rows t) = Some u"
  then show "getUserById db i =
      Some \<lparr>info_id = i, info_username = u_username u, info_email = u_email u,
            info_created_at = u_created_at u\<rparr>"
    by (auto simp: getUserById_def select_user_info_def dest: find_Some_iff [THEN iffD1])
next
  fix t
  assume "users db = Some t \<and> i \<notin> u_id ` set (rows t)"
  then show "getUserById db i = None"
    by (auto simp: getUserById_def select_user_info_def find_None_iff)
next
  assume "users db = None"
  then show "getUserById db i = None"
    by (simp add: getUserById_def select_user_info_def)
next
  assume a: "reachable db \<and> i \<le> 0"
  then have "ids_positive db"
    by (simp add: reachable_ids_positive)
  with a show "getUserById db i = None"
    by (fastforce simp: getUserById_def select_user_info_def ids_positive_def list_all_iff
          find_None_iff split: option.splits)
next
  show "getUserById (replace_password_hashes f db) i = getUserById db i"
    by (cases "users db")
      (simp_all add: getUserById_def select_user_info_def replace_password_hashes_def
         find_map_rows option.map_comp comp_def)
qed

theorem getUserById_shape_witness:
  "users sample_database = Some \<lparr>rows = [sample_user], seq = 1\<rparr> \<and>
   find (\<lambda>u. u_id u = 1) (rows \<lparr>rows = [sample_user], seq = 1\<rparr>) = Some sample_user \<and>
   getUserById sample_database 1 =
     Some \<lparr>info_id = 1, info_username = ''alice'', info_email = ''alice@example.com'',
           info_created_at = ''2026-11-02 10:00:00''\<rparr> \<and>
   99999999 \<notin> u_id ` set (rows \<lparr>rows = [sample_user], seq = 1\<rparr>) \<and>
   getUserById sample_database 99999999 = None \<and>
   users fresh_database = None \<and> getUserById fresh_database 1 = None \<and>
   reachable sample_database \<and> (0 :: int) \<le> 0 \<and> getUserById sample_database 0 = None \<and>
   (-1 :: int) \<le> 0 \<and> getUserById sample_database (-1) = None"
proof -
  have stored: "users sample_database = Some \<lparr>rows = [sample_user], seq = 1\<rparr>"
    by (simp add: sample_database_def)
  have found: "find (\<lambda>u. u_id u = 1) (rows \<lparr>rows = [sample_user], seq = 1\<rparr>) = Some sample_user"
    by (simp add: sample_user_def)
  have absent: "99999999 \<notin> u_id ` set (rows \<lparr>rows = [sample_user], seq = 1\<rparr>)"
    by (simp add: sample_user_def)
  have missing: "users fresh_database = None"
    by (simp add: fresh_database_def)
  have fields: "u_username sample_user = ''alice''" "u_email sample_user = ''alice@example.com''"
    "u_created_at sample_user = ''2026-11-02 10:00:00''"
    by (simp_all add: sample_user_def)
  show ?thesis
    using stored found absent missing fields reachable_sample_database
      getUserById_shape [of sample_database 1 u_email]
      getUserById_shape [of sample_database 99999999 u_email]
      getUserById_shape [of fresh_database 1 u_email]
      getUserById_shape [of sample_database 0 u_email]
      getUserById_shape [of sample_database "-1" u_email]
    by simp
qed

section \<open>Session cookies on responses\<close>







subsection \<open>Products of whole numbers are exact up to \<open>2\<^sup>5\<^sup>3\<close>\<close>








subsection \<open>The two operations\<close>






section \<open>Session tokens\<close>

lemma join_empty_separator: "join [] ws = concat ws"
  by (induction "[] :: string" ws rule: join.induct) simp_all

lemma split_not_empty: "split sep s \<noteq> []"
  by (induction s) (auto split: list.splits)

lemma concat_split: "concat (split sep s) = filter (\<lambda>c. c \<noteq> sep) s"
proof (induction s)
  case Nil
  show ?case by simp
next
  case (Cons c cs)
  obtain w ws where "split sep cs = w # ws"
    using split_not_empty [of sep cs] by (cases "split sep cs") auto
  with Cons show ?case by auto
qed

lemma same_dashes_same_string:
  "map (\<lambda>c. c = sep) xs = map (\<lambda>c. c = sep) ys \<Longrightarrow>
   filter (\<lambda>c. c \<noteq> sep) xs = filter (\<lambda>c. c \<noteq> sep) ys \<Longrightarrow> xs = ys"
proof (induction xs arbitrary: ys)
  case Nil
  then show ?case by simp
next
  case (Cons x xs)
  then obtain y ys' where ys: "ys = y # ys'"
    by (cases ys) auto
  with Cons.prems have "(x = sep) = (y = sep)" and "map (\<lambda>c. c = sep) xs = map (\<lambda>c. c = sep) ys'"
    by auto
  with Cons.prems ys Cons.IH [of ys'] show ?case
    by (cases "x = sep") auto
qed

lemma uuid_digits_length:
  assumes "is_uuid u"
  shows "length (filter (\<lambda>c. c \<noteq> CHR ''-'') u) = 32"
proof -
  have "map (\<lambda>c. c = CHR ''-'') (filter (\<lambda>c. c \<noteq> CHR ''-'') u) =
        filter (\<lambda>b. \<not> b) (map (\<lambda>c. c = CHR ''-'') u)"
    by (simp add: filter_map comp_def)
  also have "\<dots> = filter (\<lambda>b. \<not> b) uuid_dashes"
    using assms by (simp add: is_uuid_def)
  finally have "length (map (\<lambda>c. c = CHR ''-'') (filter (\<lambda>c. c \<noteq> CHR ''-'') u)) =
      length (filter (\<lambda>b. \<not> b) uuid_dashes)"
    by simp
  then show ?thesis
    by (simp add: uuid_dashes_def replicate_numeral_eval)
qed

lemma hex_digit_is_hex: "is_hex_char (hex_digit d)"
proof -
  have "d mod 16 < length ''0123456789abcdef''" by simp
  then have "''0123456789abcdef'' ! (d mod 16) \<in> set ''0123456789abcdef''"
    by (rule nth_mem)
  then show ?thesis
    by (simp only: is_hex_char_def hex_digit_def)
qed

lemma hex_is_hex: "list_all is_hex_char (Buffer_toString_hex bs)"
  by (induction bs) (simp_all add: Buffer_toString_hex_def hex_byte_def hex_digit_is_hex)

lemma hex_length: "length (Buffer_toString_hex bs) = 2 * length bs"
  by (induction bs) (simp_all add: Buffer_toString_hex_def hex_byte_def)

lemma hex_digit_inj:
  assumes "hex_digit a = hex_digit b"
  shows "a mod 16 = b mod 16"
proof -
  have "distinct ''0123456789abcdef''" by simp
  moreover have "a mod 16 < length ''0123456789abcdef''" "b mod 16 < length ''0123456789abcdef''"
    by simp_all
  ultimately show ?thesis
    using assms unfolding hex_digit_def by (simp only: nth_eq_iff_index_eq)
qed

lemma hex_byte_inj:
  assumes "hex_byte a = hex_byte b" and "a < 256" and "b < 256"
  shows "a = b"
proof -
  from assms(1) have "hex_digit (a div 16) = hex_digit (b div 16)" and "hex_digit a = hex_digit b"
    by (simp_all add: hex_byte_def)
  then have hi: "a div 16 mod 16 = b div 16 mod 16" and lo: "a mod 16 = b mod 16"
    by (blast dest: hex_digit_inj)+
  have "a div 16 < 16"
    by (rule less_mult_imp_div_less) (use assms(2) in simp)
  moreover have "b div 16 < 16"
    by (rule less_mult_imp_div_less) (use assms(3) in simp)
  ultimately have "a div 16 = b div 16"
    using hi by simp
  with lo have "a div 16 * 16 + a mod 16 = b div 16 * 16 + b mod 16"
    by (simp only:)
  then show ?thesis
    by (simp only: div_mult_mod_eq)
qed

lemma hex_inj:
  "Buffer_toString_hex bs = Buffer_toString_hex bs' \<Longrightarrow> list_all (\<lambda>b. b < 256) bs \<Longrightarrow>
   list_all (\<lambda>b. b < 256) bs' \<Longrightarrow> bs = bs'"
proof (induction bs arbitrary: bs')
  case Nil
  then show ?case
    by (cases bs') (simp_all add: Buffer_toString_hex_def hex_byte_def)
next
  case (Cons b bs)
  then obtain c cs where bs': "bs' = c # cs"
    by (cases bs') (auto simp: Buffer_toString_hex_def hex_byte_def)
  with Cons.prems have "hex_byte b = hex_byte c"
    and rest: "Buffer_toString_hex bs = Buffer_toString_hex cs"
    by (auto simp: Buffer_toString_hex_def hex_byte_def)
  with Cons.prems bs' have "b = c"
    by (auto intro: hex_byte_inj)
  with Cons.IH [OF rest] Cons.prems bs' show ?case by simp
qed

lemma utf8_bytes: "list_all (\<lambda>b. b < 256) (Buffer_from s)"
proof (induction s)
  case Nil
  show ?case by (simp add: Buffer_from_def)
next
  case (Cons c cs)
  have "(of_char c :: nat) < 256" by simp
  then have "(of_char c :: nat) div 64 < 4" by arith
  with Cons show ?case
    by (auto simp: Buffer_from_def utf8_char_def Let_def)
qed

lemma utf8_length: "length s \<le> length (Buffer_from s)"
  by (induction s) (auto simp: Buffer_from_def utf8_char_def Let_def)

lemma utf8_inj: "Buffer_from s = Buffer_from s' \<Longrightarrow> s = s'"
proof (induction s arbitrary: s')
  case Nil
  then show ?case
    by (cases s') (auto simp: Buffer_from_def utf8_char_def Let_def split: if_splits)
next
  case (Cons c cs)
  then obtain d ds where s': "s' = d # ds"
    by (cases s') (auto simp: Buffer_from_def utf8_char_def Let_def split: if_splits)
  from Cons.prems s' have eq: "utf8_char c @ Buffer_from cs = utf8_char d @ Buffer_from ds"
    by (simp add: Buffer_from_def)
  have "(of_char c :: nat) = of_char d \<and> Buffer_from cs = Buffer_from ds"
  proof (cases "(of_char c :: nat) < 128"; cases "(of_char d :: nat) < 128")
    assume "(of_char c :: nat) < 128" "(of_char d :: nat) < 128"
    with eq show ?thesis by (simp add: utf8_char_def Let_def)
  next
    assume "(of_char c :: nat) < 128" "\<not> (of_char d :: nat) < 128"
    with eq show ?thesis by (simp add: utf8_char_def Let_def)
  next
    assume "\<not> (of_char c :: nat) < 128" "(of_char d :: nat) < 128"
    with eq show ?thesis by (simp add: utf8_char_def Let_def)
  next
    assume "\<not> (of_char c :: nat) < 128" "\<not> (of_char d :: nat) < 128"
    with eq have "(of_char c :: nat) div 64 = of_char d div 64"
      and "(of_char c :: nat) mod 64 = of_char d mod 64"
      and "Buffer_from cs = Buffer_from ds"
      by (simp_all add: utf8_char_def Let_def)
    then show ?thesis
      by (metis div_mult_mod_eq)
  qed
  then have "c = d" and "Buffer_from cs = Buffer_from ds"
    by simp_all
  with Cons.IH [of ds] s' show ?case by simp
qed

lemma generateSessionToken_inj:
  assumes "generateSessionToken rt = generateSessionToken rt'"
    and "is_uuid (randomUUIDv7 rt)" and "is_uuid (randomUUIDv7 rt')"
  shows "randomUUIDv7 rt = randomUUIDv7 rt'"
proof -
  let ?strip = "\<lambda>u. filter (\<lambda>c. c \<noteq> CHR ''-'') u"
  from assms(1) have "Buffer_from (?strip (randomUUIDv7 rt) @ number_toString (Date_now rt)) =
      Buffer_from (?strip (randomUUIDv7 rt') @ number_toString (Date_now rt'))"
    unfolding generateSessionToken_def join_empty_separator concat_split
    by (rule hex_inj) (rule utf8_bytes)+
  then have "?strip (randomUUIDv7 rt) @ number_toString (Date_now rt) =
      ?strip (randomUUIDv7 rt') @ number_toString (Date_now rt')"
    by (rule utf8_inj)
  moreover have "length (?strip (randomUUIDv7 rt)) = length (?strip (randomUUIDv7 rt'))"
    using assms(2,3) by (simp add: uuid_digits_length)
  ultimately have "?strip (randomUUIDv7 rt) = ?strip (randomUUIDv7 rt')"
    by simp
  moreover have "map (\<lambda>c. c = CHR ''-'') (randomUUIDv7 rt) = map (\<lambda>c. c = CHR ''-'') (randomUUIDv7 rt')"
    using assms(2,3) by (simp add: is_uuid_def)
  ultimately show ?thesis
    by (rule same_dashes_same_string [rotated])
qed

lemma generateSessionToken_length:
  assumes "is_uuid (randomUUIDv7 rt)"
  shows "64 \<le> length (generateSessionToken rt)"
proof -
  let ?s = "filter (\<lambda>c. c \<noteq> CHR ''-'') (randomUUIDv7 rt) @ number_toString (Date_now rt)"
  have "32 \<le> length ?s"
    using assms by (simp add: uuid_digits_length)
  also have "\<dots> \<le> length (Buffer_from ?s)"
    by (rule utf8_length)
  finally show ?thesis
    by (simp add: generateSessionToken_def join_empty_separator concat_split hex_length)
qed

text \<open>
  C6. Every token that \<open>generateSessionToken\<close> returns consists of the characters
  \<open>0\<close> to \<open>9\<close> and \<open>a\<close> to \<open>f\<close> only. When the runtime's \<^verbatim>\<open>randomUUIDv7\<close> returns the
  textual form of a UUID, the token has at least 32 characters (64 and more, in fact), and
  successive calls, for which the runtime returns pairwise distinct UUIDs, produce pairwise
  distinct tokens: as many distinct tokens as there were calls.
\<close>

theorem generateSessionToken_hex_distinct:
  "list_all is_hex_char (generateSessionToken rt) \<and>
   (is_uuid (randomUUIDv7 rt) \<longrightarrow> 32 \<le> length (generateSessionToken rt)) \<and>
   ((\<forall>c \<in> set calls. is_uuid (randomUUIDv7 c)) \<and> distinct (map randomUUIDv7 calls) \<longrightarrow>
      distinct (map generateSessionToken calls) \<and>
      card (set (map generateSessionToken calls)) = length calls)"
proof (intro conjI impI)
  show "list_all is_hex_char (generateSessionToken rt)"
    by (simp add: generateSessionToken_def hex_is_hex)
next
  assume "is_uuid (randomUUIDv7 rt)"
  then show "32 \<le> length (generateSessionToken rt)"
    using generateSessionToken_length [of rt] by simp
next
  assume a: "(\<forall>c \<in> set calls. is_uuid (randomUUIDv7 c)) \<and> distinct (map randomUUIDv7 calls)"
  then have "inj_on generateSessionToken (set calls)"
    by (auto simp: inj_on_def distinct_map dest!: generateSessionToken_inj)
  with a show d: "distinct (map generateSessionToken calls)"
    by (simp add: distinct_map)
  then show "card (set (map generateSessionToken calls)) = length calls"
    using distinct_card [of "map generateSessionToken calls"] by simp
qed

theorem generateSessionToken_hex_distinct_witness:
  "is_uuid (randomUUIDv7 sample_platform) \<and> is_uuid (randomUUIDv7 sample_platform_2) \<and>
   distinct (map randomUUIDv7 [sample_platform, sample_platform_2]) \<and>
   Date_now sample_platform = Date_now sample_platform_2 \<and>
   generateSessionToken sample_platform = sample_token \<and>
   list_all is_hex_char (generateSessionToken sample_platform) \<and>
   32 \<le> length (generateSessionToken sample_platform) \<and>
   distinct (map generateSessionToken [sample_platform, sample_platform_2])"
proof -
  have first: "is_uuid (randomUUIDv7 sample_platform)"
    by (simp add: sample_platform_def is_uuid_def uuid_dashes_def is_hex_char_def
          replicate_numeral_eval)
  have second: "is_uuid (randomUUIDv7 sample_platform_2)"
    by (simp add: sample_platform_2_def sample_platform_def is_uuid_def uuid_dashes_def
          is_hex_char_def replicate_numeral_eval)
  have differ: "distinct (map randomUUIDv7 [sample_platform, sample_platform_2])"
    by (simp add: sample_platform_2_def sample_platform_def)
  have clock: "Date_now sample_platform = Date_now sample_platform_2"
    by (simp add: sample_platform_2_def)
  show ?thesis
    using first second differ clock sample_generateSessionToken
      generateSessionToken_hex_distinct [of sample_platform "[sample_platform, sample_platform_2]"]
    by simp
qed

end
